theory Spec2Isabelle
  imports
    Main
    "HOL-Library.Word"
    "HOL-Library.Char_ord"
    "HOL-Library.List_Lexorder"
    "HOL-Library.Multiset"
begin

section \<open>Data model\<close>

text \<open>
  The embedding follows \<^verbatim>\<open>internal/ingress/controller/kong.go\<close>.
  A Go pointer field is an \<open>option\<close> (\<open>None\<close> is the nil pointer), a Go
  \<^verbatim>\<open>string\<close> is a \<open>string\<close>, a \<^verbatim>\<open>[]byte\<close> is a list of 8-bit words and
  a nil \<^verbatim>\<open>[]byte\<close> is \<open>None\<close>. A Go map is a partial function, a nil map is
  \<open>None\<close>. Dereferencing a nil pointer is the value \<open>Inl NilDeref\<close>.
\<close>

type_synonym bytes = "8 word list"

text \<open>A value of type \<^verbatim>\<open>interface{}\<close> as \<^verbatim>\<open>encoding/json\<close> produces it;
  \<open>JNull\<close> is the nil interface.\<close>

datatype jv =
    JNull
  | JBool bool
  | JNum int
  | JStr string
  | JArr "jv list"
  | JObj "(string \<times> jv) list"

text \<open>\<^verbatim>\<open>kong.Configuration\<close> is \<^verbatim>\<open>map[string]interface{}\<close>.\<close>

type_synonym Configuration = "string \<rightharpoonup> jv"

text \<open>Go errors: a plain message, \<^verbatim>\<open>fmt.Errorf("...: %w", err)\<close> and
  \<^verbatim>\<open>deckutils.ErrArray\<close>.\<close>

datatype error =
    Error string
  | Wrap string error
  | ErrArray "error list"

datatype panic = NilDeref

text \<open>The entities of \<^verbatim>\<open>go-kong\<close>, with the fields the controller reads or
  writes and the identifier of each entity.\<close>

record Service =
  Service_ID :: "string option"
  Service_Name :: "string option"
  Service_Host :: "string option"

record Route =
  Route_ID :: "string option"
  Route_Name :: "string option"
  Route_Paths :: "string list"
  Route_PathHandling :: "string option"
  Route_HTTPSRedirectStatusCode :: "int option"
  Route_Service :: "Service option"

record Consumer =
  Consumer_ID :: "string option"
  Consumer_Username :: "string option"
  Consumer_CustomID :: "string option"

record Plugin =
  Plugin_ID :: "string option"
  Plugin_Name :: "string option"
  Plugin_Route :: "Route option"
  Plugin_Service :: "Service option"
  Plugin_Consumer :: "Consumer option"
  Plugin_Config :: "Configuration option"
  Plugin_Enabled :: "bool option"
  Plugin_RunOn :: "string option"
  Plugin_Protocols :: "string list"

record Upstream =
  Upstream_ID :: "string option"
  Upstream_Name :: "string option"
  Upstream_Algorithm :: "string option"

record Target =
  Target_ID :: "string option"
  Target_Target :: "string option"
  Target_Weight :: "int option"

record Certificate =
  Certificate_ID :: "string option"
  Certificate_Cert :: "string option"
  Certificate_Key :: "string option"
  Certificate_SNIs :: "string option list"

record CACertificate =
  CACertificate_ID :: "string option"
  CACertificate_Cert :: "string option"

record KeyAuth =
  KeyAuth_ID :: "string option"
  KeyAuth_Key :: "string option"

record HMACAuth =
  HMACAuth_ID :: "string option"
  HMACAuth_Username :: "string option"
  HMACAuth_Secret :: "string option"

record BasicAuth =
  BasicAuth_ID :: "string option"
  BasicAuth_Username :: "string option"
  BasicAuth_Password :: "string option"

record JWTAuth =
  JWTAuth_ID :: "string option"
  JWTAuth_Key :: "string option"
  JWTAuth_Secret :: "string option"

record Oauth2Credential =
  Oauth2Credential_ID :: "string option"
  Oauth2Credential_ClientID :: "string option"
  Oauth2Credential_Name :: "string option"

text \<open>
  The desired-state tree of package \<^verbatim>\<open>kongstate\<close>, as \<^verbatim>\<open>toDeckContent\<close> reads it.
  A wrapper struct that only embeds one \<^verbatim>\<open>go-kong\<close> entity
  (\<^verbatim>\<open>kongstate.Plugin\<close>, \<^verbatim>\<open>kongstate.Target\<close>, \<^verbatim>\<open>kongstate.Certificate\<close>,
  \<^verbatim>\<open>file.FPlugin\<close>, \<^verbatim>\<open>file.FTarget\<close>, \<^verbatim>\<open>file.FCACertificate\<close>) is identified
  with the entity it embeds. The credential collections are slices of non-nil
  pointers, in their input order.
\<close>

record kongstate_Route =
  ks_Route :: Route
  ks_Route_Plugins :: "Plugin list"

record kongstate_Service =
  ks_Service :: Service
  ks_Service_Plugins :: "Plugin list"
  ks_Service_Routes :: "kongstate_Route list"

record kongstate_Upstream =
  ks_Upstream :: Upstream
  ks_Upstream_Targets :: "Target list"

record kongstate_Consumer =
  ks_Consumer :: Consumer
  ks_Consumer_Plugins :: "Plugin list"
  ks_KeyAuths :: "KeyAuth list"
  ks_HMACAuths :: "HMACAuth list"
  ks_BasicAuths :: "BasicAuth list"
  ks_JWTAuths :: "JWTAuth list"
  ks_Oauth2Creds :: "Oauth2Credential list"

record KongState =
  ks_Services :: "kongstate_Service list"
  ks_Upstreams :: "kongstate_Upstream list"
  ks_Certificates :: "Certificate list"
  ks_CACertificates :: "CACertificate list"
  ks_Plugins :: "Plugin list"
  ks_Consumers :: "kongstate_Consumer list"

text \<open>The declarative document of \<^verbatim>\<open>deck/file\<close>.\<close>

record FRoute =
  FRoute_Route :: Route
  FRoute_Plugins :: "Plugin list"

record FService =
  FService_Service :: Service
  FService_Routes :: "FRoute list"
  FService_Plugins :: "Plugin list"

record FUpstream =
  FUpstream_Upstream :: Upstream
  FUpstream_Targets :: "Target list"

record SNI =
  SNI_Name :: "string option"

record FCertificate =
  FCertificate_ID :: "string option"
  FCertificate_Cert :: "string option"
  FCertificate_Key :: "string option"
  FCertificate_SNIs :: "SNI list"

record FConsumer =
  FConsumer_Consumer :: Consumer
  FConsumer_Plugins :: "Plugin list"
  FConsumer_KeyAuths :: "KeyAuth list"
  FConsumer_HMACAuths :: "HMACAuth list"
  FConsumer_BasicAuths :: "BasicAuth list"
  FConsumer_JWTAuths :: "JWTAuth list"
  FConsumer_Oauth2Creds :: "Oauth2Credential list"

record Info =
  SelectorTags :: "string list"

record Content =
  Content_FormatVersion :: string
  Content_Info :: "Info option"
  Content_Services :: "FService list"
  Content_Routes :: "FRoute list"
  Content_Consumers :: "FConsumer list"
  Content_Plugins :: "Plugin list"
  Content_Upstreams :: "FUpstream list"
  Content_Certificates :: "FCertificate list"
  Content_CACertificates :: "CACertificate list"

text \<open>What the controller writes to its logger and what it asks of the gateway.\<close>

datatype logarg = ArgStr string | ArgErr error | NoArg

datatype event =
    Log_Errorf string logarg
  | Log_Info string
  | Dump_Get "string list"
  | Solver_Solve nat
  | Client_Do_POST string bytes

text \<open>
  The configuration \<^verbatim>\<open>n.cfg\<close> and the controller's mutable field
  \<^verbatim>\<open>runningConfigHash\<close>; \<open>trace\<close> collects, oldest first, the log lines written
  and the calls made to the gateway.
\<close>

record Config =
  InMemory :: bool
  KongCustomEntitiesSecret :: string
  EnableReverseSync :: bool
  Kong_URL :: string
  Kong_HasTagSupport :: bool
  Kong_FilterTags :: "string list"
  Kong_Concurrency :: nat

record KongController =
  runningConfigHash :: "bytes option"
  trace :: "event list"

text \<open>
  The collaborators outside this file: the plugin schema store and \<^verbatim>\<open>fill\<close>,
  \<^verbatim>\<open>encoding/json\<close>, \<^verbatim>\<open>crypto/sha256\<close>, \<^verbatim>\<open>utils.ParseNameNS\<close>, the secret
  store and the HTTP client. Each is a parameter. A SHA-256 digest is a
  \<^verbatim>\<open>[32]byte\<close>, here a 256-bit word.
\<close>

record env =
  Schema :: "string \<Rightarrow> error + Configuration"
  fill :: "Configuration \<Rightarrow> Configuration \<Rightarrow> error + Configuration option"
  json_Marshal :: "Content \<Rightarrow> error + bytes"
  json_Unmarshal :: "bytes \<Rightarrow> error + Configuration"
  json_Marshal_map :: "Configuration \<Rightarrow> error + bytes"
  sha256_Sum256 :: "bytes \<Rightarrow> 256 word"
  ParseNameNS :: "string \<Rightarrow> error + string \<times> string"
  GetSecret :: "string \<Rightarrow> string \<Rightarrow> error + (string \<rightharpoonup> bytes)"
  http_NewRequest :: "string \<Rightarrow> error option"
  client_Do :: "string \<Rightarrow> bytes \<Rightarrow> error option"

text \<open>
  The collaborators of the database mode, from \<^verbatim>\<open>deck\<close>: \<^verbatim>\<open>dump.Get\<close>,
  \<^verbatim>\<open>state.Get\<close>, \<^verbatim>\<open>file.Get\<close>, \<^verbatim>\<open>diff.NewSyncer\<close> and \<^verbatim>\<open>solver.Solve\<close>.
  Their intermediate values are opaque: \<open>'r\<close> a raw state, \<open>'k\<close> a typed
  state, \<open>'y\<close> a syncer. \<open>solver_Solve\<close> returns the slice \<^verbatim>\<open>errs\<close>, \<open>None\<close>
  when it is nil.
\<close>

record ('r, 'k, 'y) deck =
  dump_Get :: "string list \<Rightarrow> error + 'r"
  state_Get :: "'r \<Rightarrow> error + 'k"
  file_Get :: "Content \<Rightarrow> 'k \<Rightarrow> error + 'r"
  diff_NewSyncer :: "'k \<Rightarrow> 'k \<Rightarrow> error + 'y"
  solver_Solve :: "'y \<Rightarrow> nat \<Rightarrow> error list option"

section \<open>Default completion\<close>

definition fillRoute :: "Route \<Rightarrow> Route" where
  "fillRoute route =
     (let route1 = (if Route_HTTPSRedirectStatusCode route = None
                    then route\<lparr>Route_HTTPSRedirectStatusCode := Some 426\<rparr> else route)
      in if Route_PathHandling route1 = None
         then route1\<lparr>Route_PathHandling := Some ''v0''\<rparr> else route1)"

definition fillUpstream :: "Upstream \<Rightarrow> Upstream" where
  "fillUpstream upstream =
     (if Upstream_Algorithm upstream = None
      then upstream\<lparr>Upstream_Algorithm := Some ''round-robin''\<rparr> else upstream)"

text \<open>\<^verbatim>\<open>fillPlugin\<close> returns its error together with the plugin as it has
  left it; the argument of \<^verbatim>\<open>toDeckContent\<close> is never the nil pointer.\<close>

definition fillPlugin :: "env \<Rightarrow> Plugin \<Rightarrow> error option \<times> Plugin" where
  "fillPlugin n plugin =
     (case Plugin_Name plugin of
        None \<Rightarrow> (Some (Error ''plugin doesn't have a name''), plugin)
      | Some name \<Rightarrow>
          if name = [] then (Some (Error ''plugin doesn't have a name''), plugin)
          else (case Schema n name of
              Inl err \<Rightarrow> (Some (Wrap ''error retrieveing schema for plugin'' err), plugin)
            | Inr schema \<Rightarrow>
                let config = (case Plugin_Config plugin of None \<Rightarrow> Map.empty | Some c \<Rightarrow> c);
                    plugin1 = plugin\<lparr>Plugin_Config := Some config\<rparr>
                in (case fill n schema config of
                    Inl err \<Rightarrow> (Some (Wrap ''error filling in default for plugin'' err), plugin1)
                  | Inr newConfig \<Rightarrow>
                      let plugin2 = plugin1\<lparr>Plugin_Config := newConfig\<rparr>;
                          plugin3 = (if Plugin_RunOn plugin2 = None
                                     then plugin2\<lparr>Plugin_RunOn := Some ''first''\<rparr> else plugin2);
                          plugin4 = (if Plugin_Enabled plugin3 = None
                                     then plugin3\<lparr>Plugin_Enabled := Some True\<rparr> else plugin3);
                          plugin5 = (if length (Plugin_Protocols plugin4) = 0
                                     then plugin4\<lparr>Plugin_Protocols := [''http'', ''https'']\<rparr>
                                     else plugin4)
                      in (None, plugin5\<lparr>Plugin_RunOn := None\<rparr>))))"

section \<open>Canonicalization\<close>

definition bindP :: "panic + 'a \<Rightarrow> ('a \<Rightarrow> panic + 'b) \<Rightarrow> panic + 'b" where
  "bindP m f = (case m of Inl p \<Rightarrow> Inl p | Inr x \<Rightarrow> f x)"

text \<open>
  \<^verbatim>\<open>sortByString\<close> is \<^verbatim>\<open>sort.SliceStable\<close> with \<^verbatim>\<open>strings.Compare\<close>, the
  byte-wise order of strings. \<open>fieldFn\<close> gives the pointer that the source's key
  function dereferences. A slice of fewer than two elements is never compared; on a
  longer one every element is compared at least once, so a nil key panics.
  \<open>sort_key\<close> is the stable sort of the list library.
\<close>

definition sortByString :: "('a \<Rightarrow> string option) \<Rightarrow> 'a list \<Rightarrow> panic + 'a list" where
  "sortByString fieldFn xs =
     (if length xs < 2 then Inr xs
      else if list_ex (\<lambda>x. fieldFn x = None) xs then Inl NilDeref
      else Inr (sort_key (\<lambda>x. the (fieldFn x)) xs))"

definition pluginString :: "Plugin \<Rightarrow> string" where
  "pluginString plugin =
     (let result = (case Plugin_Name plugin of None \<Rightarrow> [] | Some name \<Rightarrow> name);
          result1 = (case Plugin_Consumer plugin of None \<Rightarrow> result
                     | Some c \<Rightarrow> (case Consumer_ID c of None \<Rightarrow> result | Some i \<Rightarrow> result @ i));
          result2 = (case Plugin_Route plugin of None \<Rightarrow> result1
                     | Some r \<Rightarrow> (case Route_ID r of None \<Rightarrow> result1 | Some i \<Rightarrow> result1 @ i))
      in (case Plugin_Service plugin of None \<Rightarrow> result2
          | Some s \<Rightarrow> (case Service_ID s of None \<Rightarrow> result2 | Some i \<Rightarrow> result2 @ i)))"

fun getSNIs :: "string option list \<Rightarrow> panic + SNI list" where
  "getSNIs [] = Inr []"
| "getSNIs (name # names) =
     (case name of
        None \<Rightarrow> Inl NilDeref
      | Some s \<Rightarrow> bindP (getSNIs names) (\<lambda>snis. Inr (\<lparr>SNI_Name = Some s\<rparr> # snis)))"

definition getFCertificateFromKongCert :: "Certificate \<Rightarrow> panic + FCertificate" where
  "getFCertificateFromKongCert kongCert =
     bindP (getSNIs (Certificate_SNIs kongCert)) (\<lambda>snis.
       Inr \<lparr>FCertificate_ID = Certificate_ID kongCert,
            FCertificate_Cert = Certificate_Cert kongCert,
            FCertificate_Key = Certificate_Key kongCert,
            FCertificate_SNIs = snis\<rparr>)"

definition getIngressControllerTags :: "Config \<Rightarrow> string list" where
  "getIngressControllerTags cfg = (if Kong_HasTagSupport cfg then Kong_FilterTags cfg else [])"

text \<open>
  The body shared by the three plugin loops of \<^verbatim>\<open>toDeckContent\<close>: fill the copy of
  the plugin and, on an error, log the dereferenced name. It returns the plugin and
  the lines logged.
\<close>

definition plugin_step :: "env \<Rightarrow> Plugin \<Rightarrow> panic + (Plugin \<times> event list)" where
  "plugin_step n p =
     (case fillPlugin n p of
        (None, plugin) \<Rightarrow> Inr (plugin, [])
      | (Some err, plugin) \<Rightarrow>
          (case Plugin_Name plugin of
             None \<Rightarrow> Inl NilDeref
           | Some name \<Rightarrow>
               Inr (plugin, [Log_Errorf ''failed to fill-in defaults for plugin: %s'' (ArgStr name)])))"

text \<open>The loop over the plugins of a service, and of a route: the slice built so
  far is sorted again after every append.\<close>

fun plugins_loop ::
  "env \<Rightarrow> Plugin list \<Rightarrow> Plugin list \<Rightarrow> event list \<Rightarrow> panic + (Plugin list \<times> event list)" where
  "plugins_loop n [] acc logs = Inr (acc, logs)"
| "plugins_loop n (p # ps) acc logs =
     bindP (plugin_step n p) (\<lambda>(plugin, l).
     bindP (sortByString Plugin_Name (acc @ [plugin])) (\<lambda>acc'.
       plugins_loop n ps acc' (logs @ l)))"

fun routes_loop ::
  "env \<Rightarrow> kongstate_Route list \<Rightarrow> FRoute list \<Rightarrow> event list \<Rightarrow> panic + (FRoute list \<times> event list)" where
  "routes_loop n [] acc logs = Inr (acc, logs)"
| "routes_loop n (r # rs) acc logs =
     bindP (plugins_loop n (ks_Route_Plugins r) [] logs) (\<lambda>(plugins, logs1).
       routes_loop n rs
         (acc @ [\<lparr>FRoute_Route = fillRoute (ks_Route r), FRoute_Plugins = plugins\<rparr>]) logs1)"

fun services_loop ::
  "env \<Rightarrow> kongstate_Service list \<Rightarrow> FService list \<Rightarrow> event list \<Rightarrow> panic + (FService list \<times> event list)" where
  "services_loop n [] acc logs = Inr (acc, logs)"
| "services_loop n (s # ss) acc logs =
     bindP (plugins_loop n (ks_Service_Plugins s) [] logs) (\<lambda>(plugins, logs1).
     bindP (routes_loop n (ks_Service_Routes s) [] logs1) (\<lambda>(routes, logs2).
     bindP (sortByString (\<lambda>r. Route_Name (FRoute_Route r)) routes) (\<lambda>routes'.
       services_loop n ss
         (acc @ [\<lparr>FService_Service = ks_Service s, FService_Routes = routes',
                  FService_Plugins = plugins\<rparr>]) logs2)))"

fun top_plugins_loop ::
  "env \<Rightarrow> Plugin list \<Rightarrow> Plugin list \<Rightarrow> event list \<Rightarrow> panic + (Plugin list \<times> event list)" where
  "top_plugins_loop n [] acc logs = Inr (acc, logs)"
| "top_plugins_loop n (p # ps) acc logs =
     bindP (plugin_step n p) (\<lambda>(plugin, l). top_plugins_loop n ps (acc @ [plugin]) (logs @ l))"

fun upstreams_loop :: "kongstate_Upstream list \<Rightarrow> FUpstream list \<Rightarrow> panic + FUpstream list" where
  "upstreams_loop [] acc = Inr acc"
| "upstreams_loop (u # us) acc =
     bindP (sortByString Target_Target (ks_Upstream_Targets u)) (\<lambda>targets.
       upstreams_loop us
         (acc @ [\<lparr>FUpstream_Upstream = fillUpstream (ks_Upstream u), FUpstream_Targets = targets\<rparr>]))"

fun certificates_loop :: "Certificate list \<Rightarrow> FCertificate list \<Rightarrow> panic + FCertificate list" where
  "certificates_loop [] acc = Inr acc"
| "certificates_loop (c # cs) acc =
     bindP (getFCertificateFromKongCert c) (\<lambda>cert. certificates_loop cs (acc @ [cert]))"

text \<open>The plugins of a consumer are appended as they come; each credential
  collection is sorted.\<close>

fun consumers_loop :: "kongstate_Consumer list \<Rightarrow> FConsumer list \<Rightarrow> panic + FConsumer list" where
  "consumers_loop [] acc = Inr acc"
| "consumers_loop (c # cs) acc =
     bindP (sortByString KeyAuth_Key (ks_KeyAuths c)) (\<lambda>keyAuths.
     bindP (sortByString HMACAuth_Username (ks_HMACAuths c)) (\<lambda>hmacAuths.
     bindP (sortByString BasicAuth_Username (ks_BasicAuths c)) (\<lambda>basicAuths.
     bindP (sortByString JWTAuth_Key (ks_JWTAuths c)) (\<lambda>jwtAuths.
     bindP (sortByString Oauth2Credential_ClientID (ks_Oauth2Creds c)) (\<lambda>oauth2Creds.
       consumers_loop cs
         (acc @ [\<lparr>FConsumer_Consumer = ks_Consumer c,
                  FConsumer_Plugins = ks_Consumer_Plugins c,
                  FConsumer_KeyAuths = keyAuths,
                  FConsumer_HMACAuths = hmacAuths,
                  FConsumer_BasicAuths = basicAuths,
                  FConsumer_JWTAuths = jwtAuths,
                  FConsumer_Oauth2Creds = oauth2Creds\<rparr>]))))))"

definition FormatVersion :: string where
  "FormatVersion = ''1.1''"

text \<open>\<^verbatim>\<open>toDeckContent\<close> returns the document and the lines it logged, or panics.
  It never assigns the document's top-level \<^verbatim>\<open>Routes\<close>.\<close>

definition toDeckContent :: "env \<Rightarrow> Config \<Rightarrow> KongState \<Rightarrow> panic + (Content \<times> event list)" where
  "toDeckContent n cfg k8sState =
     bindP (services_loop n (ks_Services k8sState) [] []) (\<lambda>(services0, logs).
     bindP (sortByString (\<lambda>s. Service_Name (FService_Service s)) services0) (\<lambda>services.
     bindP (top_plugins_loop n (ks_Plugins k8sState) [] logs) (\<lambda>(plugins0, logs1).
     bindP (sortByString (\<lambda>p. Some (pluginString p)) plugins0) (\<lambda>plugins.
     bindP (upstreams_loop (ks_Upstreams k8sState) []) (\<lambda>upstreams0.
     bindP (sortByString (\<lambda>u. Upstream_Name (FUpstream_Upstream u)) upstreams0) (\<lambda>upstreams.
     bindP (certificates_loop (ks_Certificates k8sState) []) (\<lambda>certificates0.
     bindP (sortByString FCertificate_Cert certificates0) (\<lambda>certificates.
     bindP (sortByString CACertificate_Cert (ks_CACertificates k8sState)) (\<lambda>caCertificates.
     bindP (consumers_loop (ks_Consumers k8sState) []) (\<lambda>consumers0.
     bindP (sortByString (\<lambda>c. Consumer_Username (FConsumer_Consumer c)) consumers0) (\<lambda>consumers.
       let selectorTags = getIngressControllerTags cfg
       in Inr (\<lparr>Content_FormatVersion = FormatVersion,
                Content_Info = (if length selectorTags > 0
                                then Some \<lparr>SelectorTags = selectorTags\<rparr> else None),
                Content_Services = services,
                Content_Routes = [],
                Content_Consumers = consumers,
                Content_Plugins = plugins,
                Content_Upstreams = upstreams,
                Content_Certificates = certificates,
                Content_CACertificates = caCertificates\<rparr>, logs1))))))))))))"

section \<open>Change detection\<close>

text \<open>\<^verbatim>\<open>shaSum[:]\<close>: the 32 bytes of the digest, most significant first.\<close>

definition digest_bytes :: "256 word \<Rightarrow> bytes" where
  "digest_bytes w = map (\<lambda>i. ucast (drop_bit (8 * (31 - i)) w)) [0..<32]"

definition generateSHA :: "env \<Rightarrow> Content \<Rightarrow> bytes option \<Rightarrow> error + bytes" where
  "generateSHA n targetContent customEntities =
     (case json_Marshal n targetContent of
        Inl err \<Rightarrow> Inl (Wrap ''marshaling Kong declarative configuration to JSON'' err)
      | Inr jsonConfig \<Rightarrow>
          let buffer = (case customEntities of None \<Rightarrow> jsonConfig | Some ce \<Rightarrow> jsonConfig @ ce)
          in Inr (digest_bytes (sha256_Sum256 n buffer)))"

section \<open>The in-memory strategy\<close>

text \<open>The innermost loop of \<^verbatim>\<open>cleanUpNullsInPluginConfigs\<close>: delete every key of
  the plugin's config whose value is nil. Ranging over a nil map does nothing.\<close>

definition cleanUpPlugin :: "Plugin \<Rightarrow> Plugin" where
  "cleanUpPlugin p =
     (case Plugin_Config p of
        None \<Rightarrow> p
      | Some c \<Rightarrow> p\<lparr>Plugin_Config := Some (\<lambda>k. case c k of Some JNull \<Rightarrow> None | v \<Rightarrow> v)\<rparr>)"

text \<open>The loop over \<^verbatim>\<open>state.Services\<close>: for each service, its plugins are cleaned,
  then the plugins of every route of \<^verbatim>\<open>state.Routes\<close>, the top-level routes of
  the document.\<close>

fun cleanUp_services :: "FService list \<Rightarrow> FRoute list \<Rightarrow> FService list \<times> FRoute list" where
  "cleanUp_services [] routes = ([], routes)"
| "cleanUp_services (s # ss) routes =
     (let s' = s\<lparr>FService_Plugins := map cleanUpPlugin (FService_Plugins s)\<rparr>;
          routes' = map (\<lambda>r. r\<lparr>FRoute_Plugins := map cleanUpPlugin (FRoute_Plugins r)\<rparr>) routes;
          (ss', routes'') = cleanUp_services ss routes'
      in (s' # ss', routes''))"

definition cleanUpNullsInPluginConfigs :: "Content \<Rightarrow> Content" where
  "cleanUpNullsInPluginConfigs state =
     (let (services, routes) = cleanUp_services (Content_Services state) (Content_Routes state);
          consumers = map (\<lambda>c. c\<lparr>FConsumer_Plugins := map cleanUpPlugin (FConsumer_Plugins c)\<rparr>)
                          (Content_Consumers state);
          plugins = map cleanUpPlugin (Content_Plugins state)
      in state\<lparr>Content_Services := services, Content_Routes := routes,
               Content_Consumers := consumers, Content_Plugins := plugins\<rparr>)"

text \<open>\<^verbatim>\<open>renderConfigWithCustomEntities\<close> returns its result and the lines it
  logged. The merge loop adds each key of the custom entities that the merge map
  does not have.\<close>

definition renderConfigWithCustomEntities ::
  "env \<Rightarrow> Content \<Rightarrow> bytes option \<Rightarrow> (error + bytes) \<times> event list" where
  "renderConfigWithCustomEntities n state customEntitiesJSONBytes =
     (case json_Marshal n state of
        Inl err \<Rightarrow> (Inl (Wrap ''marshaling kong config into json'' err), [])
      | Inr kongCoreConfig \<Rightarrow>
          (case customEntitiesJSONBytes of
             None \<Rightarrow> (Inr kongCoreConfig, [])
           | Some ceBytes \<Rightarrow>
               if length ceBytes = 0 then (Inr kongCoreConfig, [])
               else (case json_Unmarshal n kongCoreConfig of
                   Inl err \<Rightarrow>
                     (Inl (Wrap ''unmarshalling kong config into map[string]interface{}'' err), [])
                 | Inr mergeMap \<Rightarrow>
                     let (mergeMap', logs) =
                           (case json_Unmarshal n ceBytes of
                              Inl err \<Rightarrow>
                                (mergeMap,
                                 [Log_Errorf ''failed to unmarshal custom entities from secret data: %v''
                                    (ArgErr err)])
                            | Inr customEntities \<Rightarrow>
                                (\<lambda>k. case mergeMap k of None \<Rightarrow> customEntities k | Some v \<Rightarrow> Some v,
                                 []))
                     in (case json_Marshal_map n mergeMap' of
                           Inl err \<Rightarrow> (Inl (Wrap ''marshaling final config into JSON'' err), logs)
                         | Inr result \<Rightarrow> (Inr result, logs)))))"

definition fetchCustomEntities :: "env \<Rightarrow> Config \<Rightarrow> error + bytes" where
  "fetchCustomEntities n cfg =
     (case ParseNameNS n (KongCustomEntitiesSecret cfg) of
        Inl err \<Rightarrow> Inl (Wrap ''parsing kong custom entities secret'' err)
      | Inr (ns, name) \<Rightarrow>
          (case GetSecret n ns name of
             Inl err \<Rightarrow> Inl (Wrap ''fetching secret'' err)
           | Inr secret_Data \<Rightarrow>
               (case secret_Data ''config'' of
                  None \<Rightarrow> Inl (Error ''config key not found in custom entities secret'')
                | Some config \<Rightarrow> Inr config)))"

text \<open>The request is a POST to \<^verbatim>\<open>URL + "/config"\<close> with the query
  \<^verbatim>\<open>check_hash=1\<close> and the JSON content type.\<close>

definition onUpdateInMemoryMode ::
  "env \<Rightarrow> Config \<Rightarrow> Content \<Rightarrow> bytes option \<Rightarrow> KongController \<Rightarrow> error option \<times> KongController" where
  "onUpdateInMemoryMode n cfg state customEntities c =
     (let state1 = state\<lparr>Content_Info := None\<rparr>;
          state2 = cleanUpNullsInPluginConfigs state1;
          (r, logs) = renderConfigWithCustomEntities n state2 customEntities;
          c1 = c\<lparr>trace := trace c @ logs\<rparr>
      in (case r of
            Inl err \<Rightarrow> (Some (Wrap ''constructing kong configuration'' err), c1)
          | Inr config \<Rightarrow>
              (case http_NewRequest n (Kong_URL cfg @ ''/config'') of
                 Some err \<Rightarrow> (Some (Wrap ''creating new HTTP request for /config'' err), c1)
               | None \<Rightarrow>
                   let c2 = c1\<lparr>trace := trace c1 @ [Client_Do_POST (Kong_URL cfg @ ''/config'') config]\<rparr>
                   in (case client_Do n (Kong_URL cfg @ ''/config'') config of
                         Some err \<Rightarrow> (Some (Wrap ''posting new config to /config'' err), c2)
                       | None \<Rightarrow> (None, c2)))))"

section \<open>The database strategy\<close>

definition onUpdateDBMode ::
  "('r, 'k, 'y) deck \<Rightarrow> Config \<Rightarrow> Content \<Rightarrow> KongController \<Rightarrow> error option \<times> KongController" where
  "onUpdateDBMode d cfg targetContent c =
     (let tags = getIngressControllerTags cfg;
          c1 = c\<lparr>trace := trace c @ [Dump_Get tags]\<rparr>
      in (case dump_Get d tags of
            Inl err \<Rightarrow> (Some (Wrap ''loading configuration from kong'' err), c1)
          | Inr rawState \<Rightarrow>
          (case state_Get d rawState of
            Inl err \<Rightarrow> (Some err, c1)
          | Inr currentState \<Rightarrow>
          (case file_Get d targetContent currentState of
            Inl err \<Rightarrow> (Some err, c1)
          | Inr rawState' \<Rightarrow>
          (case state_Get d rawState' of
            Inl err \<Rightarrow> (Some err, c1)
          | Inr targetState \<Rightarrow>
          (case diff_NewSyncer d currentState targetState of
            Inl err \<Rightarrow> (Some (Wrap ''creating a new syncer'' err), c1)
          | Inr syncer \<Rightarrow>
              let c2 = c1\<lparr>trace := trace c1 @ [Solver_Solve (Kong_Concurrency cfg)]\<rparr>
              in (case solver_Solve d syncer (Kong_Concurrency cfg) of
                    Some errs \<Rightarrow> (Some (ErrArray errs), c2)
                  | None \<Rightarrow> (None, c2))))))))"

section \<open>The reconciliation entry point\<close>

text \<open>
  \<^verbatim>\<open>OnUpdate\<close> returns the error of the invocation (\<open>None\<close> is success) and the
  controller as it leaves it, or panics. \<^verbatim>\<open>reflect.DeepEqual\<close> on two byte slices
  is equality of their contents, and a nil slice equals only a nil slice.
\<close>

definition OnUpdate ::
  "env \<Rightarrow> ('r, 'k, 'y) deck \<Rightarrow> Config \<Rightarrow> KongState \<Rightarrow> KongController
     \<Rightarrow> panic + (error option \<times> KongController)" where
  "OnUpdate n d cfg state c =
     bindP (toDeckContent n cfg state) (\<lambda>(targetContent, logs).
       let c0 = c\<lparr>trace := trace c @ logs\<rparr>;
           (customEntities, c1) =
             (if InMemory cfg \<and> KongCustomEntitiesSecret cfg \<noteq> []
              then (case fetchCustomEntities n cfg of
                      Inl err \<Rightarrow>
                        (None, c0\<lparr>trace := trace c0 @
                                 [Log_Errorf ''failed to fetch custom entities: %v'' (ArgErr err)]\<rparr>)
                    | Inr ce \<Rightarrow> (Some ce, c0))
              else (None, c0));
           early =
             (if \<not> EnableReverseSync cfg
              then (case generateSHA n targetContent customEntities of
                      Inl err \<Rightarrow> Inl (Some err, c1)
                    | Inr sha \<Rightarrow>
                        if runningConfigHash c1 = Some sha
                        then Inl (None, c1\<lparr>trace := trace c1 @
                                   [Log_Info ''no configuration change, skipping sync to kong'']\<rparr>)
                        else Inr (Some sha))
              else Inr None)
       in (case early of
             Inl ret \<Rightarrow> Inr ret
           | Inr shaSum \<Rightarrow>
               let (err, c2) = (if InMemory cfg
                                then onUpdateInMemoryMode n cfg targetContent customEntities c1
                                else onUpdateDBMode d cfg targetContent c1)
               in (case err of
                     Some e \<Rightarrow> Inr (Some e, c2)
                   | None \<Rightarrow>
                       Inr (None, c2\<lparr>runningConfigHash := shaSum,
                                     trace := trace c2 @
                                       [Log_Info ''successfully synced configuration to kong'']\<rparr>))))"

section \<open>Observations used to state the properties\<close>

text \<open>The events of a trace that are calls to the gateway: reading its state,
  running the solver against it, posting a configuration to it.\<close>

definition gateway_call :: "event \<Rightarrow> bool" where
  "gateway_call e = (case e of Dump_Get _ \<Rightarrow> True | Solver_Solve _ \<Rightarrow> True
                     | Client_Do_POST _ _ \<Rightarrow> True | _ \<Rightarrow> False)"

definition gateway_calls :: "event list \<Rightarrow> event list" where
  "gateway_calls tr = filter gateway_call tr"

text \<open>The custom entities \<^verbatim>\<open>OnUpdate\<close> works with and the line it logs when it
  cannot fetch them (lines 47 to 56 of the source).\<close>

definition customEntitiesOf :: "env \<Rightarrow> Config \<Rightarrow> bytes option" where
  "customEntitiesOf n cfg =
     (if InMemory cfg \<and> KongCustomEntitiesSecret cfg \<noteq> []
      then (case fetchCustomEntities n cfg of Inl err \<Rightarrow> None | Inr ce \<Rightarrow> Some ce)
      else None)"


definition fetchLog :: "env \<Rightarrow> Config \<Rightarrow> event list" where
  "fetchLog n cfg =
     (if InMemory cfg \<and> KongCustomEntitiesSecret cfg \<noteq> []
      then (case fetchCustomEntities n cfg of
              Inl err \<Rightarrow> [Log_Errorf ''failed to fetch custom entities: %v'' (ArgErr err)]
            | Inr ce \<Rightarrow> [])
      else [])"

section \<open>Concrete inputs\<close>

text \<open>A small environment, gateway and desired state at which the theorems are
  instantiated. The serializer, the parser and the digest are stand-ins that can be
  evaluated.\<close>

definition ex_env :: env where
  "ex_env =
     \<lparr>Schema = (\<lambda>name. Inl (Error ''no schema'')),
      fill = (\<lambda>schema config. Inr (Some config)),
      json_Marshal = (\<lambda>content. Inr [of_nat (length (Content_Services content))]),
      json_Unmarshal = (\<lambda>b.
        if b = [1] then Inr [''services'' \<mapsto> JArr []]
        else if b = [7] then Inr [''services'' \<mapsto> JArr [JNum 1], ''extra'' \<mapsto> JObj []]
        else Inl (Error ''invalid character'')),
      json_Marshal_map = (\<lambda>m.
        Inr [if m ''services'' = Some (JArr []) then 1 else 0,
             if m ''extra'' = Some (JObj []) then 1 else 0]),
      sha256_Sum256 = (\<lambda>b. of_nat (length b)),
      ParseNameNS = (\<lambda>s.
        if s = ''kong/entities'' then Inr (''kong'', ''entities'')
        else Inl (Error ''invalid format (namespace/name)'')),
      GetSecret = (\<lambda>ns name.
        if ns = ''kong'' \<and> name = ''entities'' then Inr [''config'' \<mapsto> [7]]
        else Inl (Error ''secret not found'')),
      http_NewRequest = (\<lambda>url. None),
      client_Do = (\<lambda>url body. None)\<rparr>"

definition ex_deck :: "(unit, unit, unit) deck" where
  "ex_deck =
     \<lparr>dump_Get = (\<lambda>tags. Inr ()),
      state_Get = (\<lambda>r. Inr ()),
      file_Get = (\<lambda>content k. Inr ()),
      diff_NewSyncer = (\<lambda>k k'. Inr ()),
      solver_Solve = (\<lambda>y concurrency. Some [Error ''409 conflict'', Error ''500 internal error''])\<rparr>"


definition ex_cfg :: Config where
  "ex_cfg =
     \<lparr>InMemory = False,
      KongCustomEntitiesSecret = [],
      EnableReverseSync = False,
      Kong_URL = ''http://kong:8001'',
      Kong_HasTagSupport = True,
      Kong_FilterTags = [''managed-by-ingress-controller''],
      Kong_Concurrency = 10\<rparr>"

definition ex_service :: Service where
  "ex_service = \<lparr>Service_ID = None, Service_Name = Some ''svc'', Service_Host = Some ''svc.default''\<rparr>"

definition ex_state :: KongState where
  "ex_state =
     \<lparr>ks_Services = [\<lparr>ks_Service = ex_service, ks_Service_Plugins = [], ks_Service_Routes = []\<rparr>],
      ks_Upstreams = [],
      ks_Certificates = [],
      ks_CACertificates = [],
      ks_Plugins = [],
      ks_Consumers = []\<rparr>"

definition ex_content :: Content where
  "ex_content =
     \<lparr>Content_FormatVersion = ''1.1'',
      Content_Info = Some \<lparr>SelectorTags = [''managed-by-ingress-controller'']\<rparr>,
      Content_Services = [\<lparr>FService_Service = ex_service, FService_Routes = [], FService_Plugins = []\<rparr>],
      Content_Routes = [],
      Content_Consumers = [],
      Content_Plugins = [],
      Content_Upstreams = [],
      Content_Certificates = [],
      Content_CACertificates = []\<rparr>"

definition ex_controller :: KongController where
  "ex_controller = \<lparr>runningConfigHash = None, trace = []\<rparr>"

definition ex_cfg_reverse :: Config where
  "ex_cfg_reverse = ex_cfg\<lparr>EnableReverseSync := True\<rparr>"

definition ex_cfg_malformed :: Config where
  "ex_cfg_malformed = ex_cfg\<lparr>InMemory := True, KongCustomEntitiesSecret := ''malformed''\<rparr>"

definition ex_controller_synced :: KongController where
  "ex_controller_synced = \<lparr>runningConfigHash = Some (digest_bytes 1), trace = []\<rparr>"




definition ex_null_config :: Configuration where
  "ex_null_config = [''a'' \<mapsto> JNull, ''b'' \<mapsto> JNum 1]"

definition ex_clean_config :: Configuration where
  "ex_clean_config = [''b'' \<mapsto> JNum 1]"

definition ex_null_plugin :: Plugin where
  "ex_null_plugin =
     \<lparr>Plugin_ID = None, Plugin_Name = Some ''rate-limiting'', Plugin_Route = None,
      Plugin_Service = None, Plugin_Consumer = None, Plugin_Config = Some ex_null_config,
      Plugin_Enabled = None, Plugin_RunOn = None, Plugin_Protocols = []\<rparr>"

definition ex_clean_plugin :: Plugin where
  "ex_clean_plugin = ex_null_plugin\<lparr>Plugin_Config := Some ex_clean_config\<rparr>"

definition ex_route :: Route where
  "ex_route =
     \<lparr>Route_ID = None, Route_Name = Some ''route'', Route_Paths = [''/''],
      Route_PathHandling = Some ''v0'', Route_HTTPSRedirectStatusCode = Some 426,
      Route_Service = None\<rparr>"

definition ex_consumer :: Consumer where
  "ex_consumer = \<lparr>Consumer_ID = None, Consumer_Username = Some ''alice'', Consumer_CustomID = None\<rparr>"

definition ex_null_state :: KongState where
  "ex_null_state =
     \<lparr>ks_Services =
        [\<lparr>ks_Service = ex_service, ks_Service_Plugins = [ex_null_plugin],
          ks_Service_Routes = [\<lparr>ks_Route = ex_route, ks_Route_Plugins = [ex_null_plugin]\<rparr>]\<rparr>],
      ks_Upstreams = [], ks_Certificates = [], ks_CACertificates = [],
      ks_Plugins = [ex_null_plugin],
      ks_Consumers =
        [\<lparr>ks_Consumer = ex_consumer, ks_Consumer_Plugins = [ex_null_plugin], ks_KeyAuths = [],
          ks_HMACAuths = [], ks_BasicAuths = [], ks_JWTAuths = [], ks_Oauth2Creds = []\<rparr>]\<rparr>"

definition ex_null_content :: "Plugin \<Rightarrow> Plugin \<Rightarrow> Content" where
  "ex_null_content route_plugin other_plugin =
     \<lparr>Content_FormatVersion = ''1.1'',
      Content_Info = Some \<lparr>SelectorTags = [''managed-by-ingress-controller'']\<rparr>,
      Content_Services =
        [\<lparr>FService_Service = ex_service,
          FService_Routes = [\<lparr>FRoute_Route = ex_route, FRoute_Plugins = [route_plugin]\<rparr>],
          FService_Plugins = [other_plugin]\<rparr>],
      Content_Routes = [],
      Content_Consumers =
        [\<lparr>FConsumer_Consumer = ex_consumer, FConsumer_Plugins = [other_plugin],
          FConsumer_KeyAuths = [], FConsumer_HMACAuths = [], FConsumer_BasicAuths = [],
          FConsumer_JWTAuths = [], FConsumer_Oauth2Creds = []\<rparr>],
      Content_Plugins = [other_plugin],
      Content_Upstreams = [],
      Content_Certificates = [],
      Content_CACertificates = []\<rparr>"

definition ex_plugin_key_auth :: Plugin where
  "ex_plugin_key_auth =
     \<lparr>Plugin_ID = None, Plugin_Name = Some ''key-auth'', Plugin_Route = None,
      Plugin_Service = None, Plugin_Consumer = None, Plugin_Config = None,
      Plugin_Enabled = None, Plugin_RunOn = None, Plugin_Protocols = []\<rparr>"

definition ex_plugin_acl :: Plugin where
  "ex_plugin_acl = ex_plugin_key_auth\<lparr>Plugin_Name := Some ''acl''\<rparr>"

definition ex_unsorted_state :: KongState where
  "ex_unsorted_state =
     \<lparr>ks_Services =
        [\<lparr>ks_Service = ex_service, ks_Service_Plugins = [ex_plugin_key_auth, ex_plugin_acl],
          ks_Service_Routes = []\<rparr>],
      ks_Upstreams = [], ks_Certificates = [], ks_CACertificates = [],
      ks_Plugins = [],
      ks_Consumers =
        [\<lparr>ks_Consumer = ex_consumer, ks_Consumer_Plugins = [ex_plugin_key_auth, ex_plugin_acl],
          ks_KeyAuths = [], ks_HMACAuths = [], ks_BasicAuths = [], ks_JWTAuths = [],
          ks_Oauth2Creds = []\<rparr>]\<rparr>"

definition ex_unsorted_content :: Content where
  "ex_unsorted_content =
     \<lparr>Content_FormatVersion = ''1.1'',
      Content_Info = Some \<lparr>SelectorTags = [''managed-by-ingress-controller'']\<rparr>,
      Content_Services =
        [\<lparr>FService_Service = ex_service, FService_Routes = [],
          FService_Plugins = [ex_plugin_acl, ex_plugin_key_auth]\<rparr>],
      Content_Routes = [],
      Content_Consumers =
        [\<lparr>FConsumer_Consumer = ex_consumer,
          FConsumer_Plugins = [ex_plugin_key_auth, ex_plugin_acl],
          FConsumer_KeyAuths = [], FConsumer_HMACAuths = [], FConsumer_BasicAuths = [],
          FConsumer_JWTAuths = [], FConsumer_Oauth2Creds = []\<rparr>],
      Content_Plugins = [],
      Content_Upstreams = [],
      Content_Certificates = [],
      Content_CACertificates = []\<rparr>"





section \<open>Properties of the loops and of the two strategies\<close>

lemma bindP_Inl [simp]: "bindP (Inl p) f = Inl p"
  by (simp add: bindP_def)

lemma bindP_Inr [simp]: "bindP (Inr x) f = f x"
  by (simp add: bindP_def)

lemma bindP_eq_Inr: "bindP m f = Inr y \<longleftrightarrow> (\<exists>x. m = Inr x \<and> f x = Inr y)"
  by (cases m) simp_all

lemma gateway_calls_append [simp]: "gateway_calls (xs @ ys) = gateway_calls xs @ gateway_calls ys"
  by (simp add: gateway_calls_def)

lemma gateway_calls_Nil [simp]: "gateway_calls [] = []"
  by (simp add: gateway_calls_def)

lemma gateway_calls_Cons_log [simp]:
  "gateway_calls (Log_Errorf f a # xs) = gateway_calls xs"
  "gateway_calls (Log_Info s # xs) = gateway_calls xs"
  "gateway_calls (Dump_Get t # xs) = Dump_Get t # gateway_calls xs"
  "gateway_calls (Solver_Solve k # xs) = Solver_Solve k # gateway_calls xs"
  "gateway_calls (Client_Do_POST u b # xs) = Client_Do_POST u b # gateway_calls xs"
  by (simp_all add: gateway_calls_def gateway_call_def)

lemma plugin_step_logs: "plugin_step n p = Inr (q, l) \<Longrightarrow> gateway_calls l = []"
  by (auto simp: plugin_step_def split: prod.splits option.splits)

lemma plugins_loop_logs:
  "plugins_loop n ps acc logs = Inr (r, logs') \<Longrightarrow> gateway_calls logs' = gateway_calls logs"
proof (induction ps arbitrary: acc logs)
  case Nil
  then show ?case by simp
next
  case (Cons p ps)
  then show ?case
    by (auto simp: bindP_eq_Inr dest!: plugin_step_logs)
qed

lemma routes_loop_logs:
  "routes_loop n rs acc logs = Inr (r, logs') \<Longrightarrow> gateway_calls logs' = gateway_calls logs"
proof (induction rs arbitrary: acc logs)
  case Nil
  then show ?case by simp
next
  case (Cons a rs)
  then show ?case
    by (auto simp: bindP_eq_Inr dest!: plugins_loop_logs)
qed

lemma services_loop_logs:
  "services_loop n ss acc logs = Inr (r, logs') \<Longrightarrow> gateway_calls logs' = gateway_calls logs"
proof (induction ss arbitrary: acc logs)
  case Nil
  then show ?case by simp
next
  case (Cons a ss)
  then show ?case
    by (auto simp: bindP_eq_Inr dest!: plugins_loop_logs routes_loop_logs)
qed

lemma top_plugins_loop_logs:
  "top_plugins_loop n ps acc logs = Inr (r, logs') \<Longrightarrow> gateway_calls logs' = gateway_calls logs"
proof (induction ps arbitrary: acc logs)
  case Nil
  then show ?case by simp
next
  case (Cons p ps)
  then show ?case
    by (auto simp: bindP_eq_Inr dest!: plugin_step_logs)
qed

lemma toDeckContent_logs:
  "toDeckContent n cfg k = Inr (tc, logs) \<Longrightarrow> gateway_calls logs = []"
  by (auto simp: toDeckContent_def bindP_eq_Inr Let_def
           dest!: services_loop_logs top_plugins_loop_logs)

lemma onUpdateDBMode_hash [simp]:
  "runningConfigHash (snd (onUpdateDBMode d cfg tc c)) = runningConfigHash c"
  by (simp add: onUpdateDBMode_def Let_def split: sum.splits option.splits)

lemma onUpdateDBMode_calls:
  "\<exists>rest. gateway_calls (trace (snd (onUpdateDBMode d cfg tc c))) =
     gateway_calls (trace c) @ Dump_Get (getIngressControllerTags cfg) # rest"
  by (simp add: onUpdateDBMode_def Let_def split: sum.splits option.splits)

lemma onUpdateDBMode_indep:
  "fst (onUpdateDBMode d cfg tc c) = fst (onUpdateDBMode d cfg tc c')"
  by (simp add: onUpdateDBMode_def Let_def split: sum.splits option.splits)

lemma onUpdateDBMode_calls_indep:
  "gateway_calls (trace c) = gateway_calls (trace c') \<Longrightarrow>
   gateway_calls (trace (snd (onUpdateDBMode d cfg tc c))) =
   gateway_calls (trace (snd (onUpdateDBMode d cfg tc c')))"
  by (simp add: onUpdateDBMode_def Let_def split: sum.splits option.splits)

lemma onUpdateInMemoryMode_hash [simp]:
  "runningConfigHash (snd (onUpdateInMemoryMode n cfg tc ce c)) = runningConfigHash c"
  by (simp add: onUpdateInMemoryMode_def Let_def split: sum.splits option.splits prod.splits)

lemma onUpdateInMemoryMode_indep:
  "fst (onUpdateInMemoryMode n cfg tc ce c) = fst (onUpdateInMemoryMode n cfg tc ce c')"
  by (simp add: onUpdateInMemoryMode_def Let_def split: sum.splits option.splits prod.splits)

lemma renderConfigWithCustomEntities_logs:
  "renderConfigWithCustomEntities n st ce = (r, l) \<Longrightarrow> gateway_calls l = []"
  by (auto simp: renderConfigWithCustomEntities_def Let_def split: sum.splits option.splits prod.splits if_splits)

lemma onUpdateInMemoryMode_calls_indep:
  "gateway_calls (trace c) = gateway_calls (trace c') \<Longrightarrow>
   gateway_calls (trace (snd (onUpdateInMemoryMode n cfg tc ce c))) =
   gateway_calls (trace (snd (onUpdateInMemoryMode n cfg tc ce c')))"
  by (simp add: onUpdateInMemoryMode_def Let_def split: sum.splits option.splits prod.splits)


lemma onUpdateInMemoryMode_posts:
  "fst (renderConfigWithCustomEntities n
         (cleanUpNullsInPluginConfigs (tc\<lparr>Content_Info := None\<rparr>)) ce) = Inr config \<Longrightarrow>
   http_NewRequest n (Kong_URL cfg @ ''/config'') = None \<Longrightarrow>
   gateway_calls (trace (snd (onUpdateInMemoryMode n cfg tc ce c))) =
     gateway_calls (trace c) @ [Client_Do_POST (Kong_URL cfg @ ''/config'') config]"
  by (auto simp: onUpdateInMemoryMode_def Let_def split: sum.splits option.splits prod.splits
           dest: renderConfigWithCustomEntities_logs)

lemma length_digest_bytes [simp]: "length (digest_bytes w) = 32"
  by (simp add: digest_bytes_def)


lemma gateway_calls_fetchLog [simp]: "gateway_calls (fetchLog n cfg) = []"
  by (simp add: fetchLog_def split: sum.splits)

lemma OnUpdate_unfold:
  assumes "toDeckContent n cfg state = Inr (tc, logs)"
  shows "OnUpdate n d cfg state c =
     (let ce = customEntitiesOf n cfg;
          c1 = c\<lparr>trace := trace c @ logs @ fetchLog n cfg\<rparr>
      in if \<not> EnableReverseSync cfg \<and> (\<exists>err. generateSHA n tc ce = Inl err)
         then Inr (Some (projl (generateSHA n tc ce)), c1)
         else if \<not> EnableReverseSync cfg \<and> Some (projr (generateSHA n tc ce)) = runningConfigHash c
         then Inr (None, c1\<lparr>trace := trace c1 @
                      [Log_Info ''no configuration change, skipping sync to kong'']\<rparr>)
         else
           let shaSum = (if EnableReverseSync cfg then None
                         else Some (projr (generateSHA n tc ce)));
               res = (if InMemory cfg then onUpdateInMemoryMode n cfg tc ce c1
                      else onUpdateDBMode d cfg tc c1)
           in (case fst res of
                 Some e \<Rightarrow> Inr (Some e, snd res)
               | None \<Rightarrow>
                   Inr (None, (snd res)\<lparr>runningConfigHash := shaSum,
                         trace := trace (snd res) @
                           [Log_Info ''successfully synced configuration to kong'']\<rparr>)))"
proof (cases "InMemory cfg \<and> KongCustomEntitiesSecret cfg \<noteq> []")
  case False
  then show ?thesis
    unfolding OnUpdate_def customEntitiesOf_def fetchLog_def
    by (cases "generateSHA n tc None")
       (auto simp: assms Let_def split: prod.splits option.splits)
next
  case True
  show ?thesis
  proof (cases "fetchCustomEntities n cfg")
    case (Inl err)
    with True show ?thesis
      unfolding OnUpdate_def customEntitiesOf_def fetchLog_def
      by (cases "generateSHA n tc None")
         (auto simp: assms Let_def split: prod.splits option.splits)
  next
    case (Inr b)
    with True show ?thesis
      unfolding OnUpdate_def customEntitiesOf_def fetchLog_def
      by (cases "generateSHA n tc (Some b)")
         (auto simp: assms Let_def split: prod.splits option.splits)
  qed
qed

lemma generateSHA_eq:
  "json_Marshal n tc = Inr doc \<Longrightarrow>
   generateSHA n tc ce =
     Inr (digest_bytes (sha256_Sum256 n (doc @ (case ce of None \<Rightarrow> [] | Some b \<Rightarrow> b))))"
  by (simp add: generateSHA_def split: option.splits)






lemma toDeckContent_cfg:
  "getIngressControllerTags cfg' = getIngressControllerTags cfg \<Longrightarrow>
   toDeckContent n cfg' k = toDeckContent n cfg k"
  by (simp add: toDeckContent_def)

lemma onUpdateInMemoryMode_cfg:
  "Kong_URL cfg' = Kong_URL cfg \<Longrightarrow>
   onUpdateInMemoryMode n cfg' tc ce c = onUpdateInMemoryMode n cfg tc ce c"
  by (simp add: onUpdateInMemoryMode_def Let_def split: prod.splits sum.splits option.splits)

lemma onUpdateDBMode_cfg:
  "getIngressControllerTags cfg' = getIngressControllerTags cfg \<Longrightarrow>
   Kong_Concurrency cfg' = Kong_Concurrency cfg \<Longrightarrow>
   onUpdateDBMode d cfg' tc c = onUpdateDBMode d cfg tc c"
  by (simp add: onUpdateDBMode_def Let_def split: prod.splits sum.splits option.splits)

lemma OnUpdate_Inr_toDeckContent:
  "OnUpdate n d cfg state c = Inr x \<Longrightarrow> \<exists>tc logs. toDeckContent n cfg state = Inr (tc, logs)"
  by (auto simp: OnUpdate_def bindP_eq_Inr)


lemma onUpdateDBMode_trace_mono:
  "set (trace c) \<subseteq> set (trace (snd (onUpdateDBMode d cfg tc c)))"
  by (auto simp: onUpdateDBMode_def Let_def split: sum.splits option.splits)

lemma onUpdateInMemoryMode_trace_mono:
  "set (trace c) \<subseteq> set (trace (snd (onUpdateInMemoryMode n cfg tc ce c)))"
  by (auto simp: onUpdateInMemoryMode_def Let_def split: sum.splits option.splits prod.splits)

lemma OnUpdate_proceeds_full:
  assumes "toDeckContent n cfg state = Inr (tc, logs)"
    and "EnableReverseSync cfg \<or>
         (\<exists>sha. generateSHA n tc (customEntitiesOf n cfg) = Inr sha
                \<and> runningConfigHash c \<noteq> Some sha)"
    and "S = (if InMemory cfg then onUpdateInMemoryMode n cfg tc (customEntitiesOf n cfg) c
              else onUpdateDBMode d cfg tc c)"
  shows "\<exists>c'. OnUpdate n d cfg state c = Inr (fst S, c')
     \<and> gateway_calls (trace c') = gateway_calls (trace (snd S))
     \<and> set (fetchLog n cfg) \<subseteq> set (trace c')
     \<and> runningConfigHash c' =
         (if fst S \<noteq> None then runningConfigHash c
          else if EnableReverseSync cfg then None
          else Some (projr (generateSHA n tc (customEntitiesOf n cfg))))"
proof -
  define ce where "ce = customEntitiesOf n cfg"
  define c1 where "c1 = c\<lparr>trace := trace c @ logs @ fetchLog n cfg\<rparr>"
  define res where "res = (if InMemory cfg then onUpdateInMemoryMode n cfg tc ce c1
                           else onUpdateDBMode d cfg tc c1)"
  define shaSum where "shaSum = (if EnableReverseSync cfg then None
                                 else Some (projr (generateSHA n tc ce)))"
  have ns1: "(\<not> EnableReverseSync cfg \<and> (\<exists>err. generateSHA n tc ce = Inl err)) = False"
    using assms(2) by (auto simp: ce_def)
  have ns2: "(\<not> EnableReverseSync cfg \<and> Some (projr (generateSHA n tc ce)) = runningConfigHash c) = False"
    using assms(2) by (auto simp: ce_def)
  have unf: "OnUpdate n d cfg state c =
      (case fst res of
         Some e \<Rightarrow> Inr (Some e, snd res)
       | None \<Rightarrow> Inr (None, (snd res)\<lparr>runningConfigHash := shaSum,
           trace := trace (snd res) @ [Log_Info ''successfully synced configuration to kong'']\<rparr>))"
    unfolding OnUpdate_unfold[OF assms(1)] Let_def ce_def[symmetric] c1_def[symmetric]
      res_def[symmetric] shaSum_def[symmetric] ns1 ns2
    by simp
  have lg: "gateway_calls logs = []"
    using assms(1) by (rule toDeckContent_logs)
  have c1: "gateway_calls (trace c1) = gateway_calls (trace c)"
    by (simp add: c1_def lg)
  have fst_eq: "fst res = fst S"
    unfolding res_def assms(3) ce_def
    using onUpdateInMemoryMode_indep[of n cfg tc "customEntitiesOf n cfg" c1 c]
      onUpdateDBMode_indep[of d cfg tc c1 c]
    by simp
  have calls_eq: "gateway_calls (trace (snd res)) = gateway_calls (trace (snd S))"
    unfolding res_def assms(3) ce_def
    using onUpdateInMemoryMode_calls_indep[OF c1, of n cfg tc "customEntitiesOf n cfg"]
      onUpdateDBMode_calls_indep[OF c1, of d cfg tc]
    by simp
  have hash_eq: "runningConfigHash (snd res) = runningConfigHash c"
    by (simp add: res_def c1_def)
  have "set (trace c1) \<subseteq> set (trace (snd res))"
    unfolding res_def
    using onUpdateInMemoryMode_trace_mono[of c1 n cfg tc ce] onUpdateDBMode_trace_mono[of c1 d cfg tc]
    by simp
  then have fl: "set (fetchLog n cfg) \<subseteq> set (trace (snd res))"
    by (auto simp: c1_def)
  show ?thesis
  proof (cases "fst S")
    case None
    then show ?thesis
      using fst_eq calls_eq fl by (auto simp: unf shaSum_def ce_def)
  next
    case (Some e)
    then show ?thesis
      using fst_eq calls_eq hash_eq fl by (simp add: unf)
  qed
qed

lemma OnUpdate_Inl_iff:
  "OnUpdate n d cfg state c = Inl p \<longleftrightarrow> toDeckContent n cfg state = Inl p"
proof (cases "toDeckContent n cfg state")
  case (Inl q)
  then show ?thesis
    by (simp add: OnUpdate_def)
next
  case (Inr x)
  obtain tc logs where "x = (tc, logs)"
    by (cases x)
  with Inr have td: "toDeckContent n cfg state = Inr (tc, logs)"
    by simp
  show ?thesis
    by (simp add: OnUpdate_unfold[OF td] td Let_def split: option.splits)
qed

lemma fetchCustomEntities_malformed:
  "ParseNameNS n (KongCustomEntitiesSecret cfg) = Inl e \<Longrightarrow>
   fetchCustomEntities n cfg = Inl (Wrap ''parsing kong custom entities secret'' e)"
  by (simp add: fetchCustomEntities_def)




section \<open>The concrete inputs evaluated\<close>

lemma ex_toDeckContent: "toDeckContent ex_env ex_cfg ex_state = Inr (ex_content, [])"
  by (simp add: toDeckContent_def ex_state_def ex_content_def sortByString_def
      getIngressControllerTags_def ex_cfg_def FormatVersion_def)

lemma ex_marshal: "json_Marshal ex_env ex_content = Inr [1]"
  by (simp add: ex_env_def ex_content_def)

lemma ex_sha: "sha256_Sum256 ex_env bs = of_nat (length bs)"
  by (simp add: ex_env_def)

lemma ex_toDeckContent_any:
  assumes "getIngressControllerTags cfg = [''managed-by-ingress-controller'']"
  shows "toDeckContent ex_env cfg ex_state = Inr (ex_content, [])"
proof -
  have "getIngressControllerTags cfg = getIngressControllerTags ex_cfg"
    using assms by (simp add: getIngressControllerTags_def ex_cfg_def)
  then have "toDeckContent ex_env cfg ex_state = toDeckContent ex_env ex_cfg ex_state"
    by (rule toDeckContent_cfg)
  then show ?thesis
    by (simp only: ex_toDeckContent)
qed

lemma ex_toDeckContent_reverse:
  "toDeckContent ex_env ex_cfg_reverse ex_state = Inr (ex_content, [])"
  by (rule ex_toDeckContent_any) (simp add: ex_cfg_reverse_def getIngressControllerTags_def ex_cfg_def)

lemma ex_toDeckContent_malformed:
  "toDeckContent ex_env ex_cfg_malformed ex_state = Inr (ex_content, [])"
  by (rule ex_toDeckContent_any) (simp add: ex_cfg_malformed_def getIngressControllerTags_def ex_cfg_def)


lemma ex_fetch_malformed:
  "fetchCustomEntities ex_env ex_cfg_malformed =
     Inl (Wrap ''parsing kong custom entities secret'' (Error ''invalid format (namespace/name)''))"
  by (simp add: fetchCustomEntities_def ex_env_def ex_cfg_malformed_def)

lemma ex_onUpdateInMemoryMode:
  "onUpdateInMemoryMode ex_env ex_cfg_malformed ex_content None c =
     (None, c\<lparr>trace := trace c @ [Client_Do_POST ''http://kong:8001/config'' [1]]\<rparr>)"
  by (simp add: onUpdateInMemoryMode_def renderConfigWithCustomEntities_def
      cleanUpNullsInPluginConfigs_def ex_content_def ex_env_def ex_cfg_malformed_def ex_cfg_def)

section \<open>Plugins without a name\<close>










section \<open>What the null clean-up reaches\<close>

lemma cleanUp_services_routes:
  "map FService_Routes (fst (cleanUp_services ss rs)) = map FService_Routes ss"
  by (induction ss arbitrary: rs) (simp_all add: Let_def case_prod_beta)

lemma cleanUp_services_plugins:
  "map FService_Plugins (fst (cleanUp_services ss rs)) =
     map (\<lambda>s. map cleanUpPlugin (FService_Plugins s)) ss"
  by (induction ss arbitrary: rs) (simp_all add: Let_def case_prod_beta)

lemma cleanUpPlugin_no_nulls:
  "Plugin_Config (cleanUpPlugin p) = Some c \<Longrightarrow> c k \<noteq> Some JNull"
  by (auto simp: cleanUpPlugin_def split: option.splits jv.splits)

lemma cleanUpNulls_leaves_service_routes:
  "map FService_Routes (Content_Services (cleanUpNullsInPluginConfigs st)) =
     map FService_Routes (Content_Services st)"
  using cleanUp_services_routes[of "Content_Services st" "Content_Routes st"]
  by (simp add: cleanUpNullsInPluginConfigs_def Let_def case_prod_beta)

lemma cleanUpNulls_cleans_other_plugins:
  "map FService_Plugins (Content_Services (cleanUpNullsInPluginConfigs st)) =
     map (\<lambda>s. map cleanUpPlugin (FService_Plugins s)) (Content_Services st)"
  "map FConsumer_Plugins (Content_Consumers (cleanUpNullsInPluginConfigs st)) =
     map (\<lambda>c. map cleanUpPlugin (FConsumer_Plugins c)) (Content_Consumers st)"
  "Content_Plugins (cleanUpNullsInPluginConfigs st) = map cleanUpPlugin (Content_Plugins st)"
  using cleanUp_services_plugins[of "Content_Services st" "Content_Routes st"]
  by (simp_all add: cleanUpNullsInPluginConfigs_def Let_def case_prod_beta)

lemma ex_cleanUpPlugin: "cleanUpPlugin ex_null_plugin = ex_clean_plugin"
  by (auto simp: cleanUpPlugin_def ex_null_plugin_def ex_clean_plugin_def ex_null_config_def
      ex_clean_config_def fun_eq_iff)

lemma ex_plugin_step_null:
  "plugin_step ex_env ex_null_plugin =
     Inr (ex_null_plugin, [Log_Errorf ''failed to fill-in defaults for plugin: %s'' (ArgStr ''rate-limiting'')])"
  by (simp add: plugin_step_def fillPlugin_def ex_env_def ex_null_plugin_def)

lemma ex_null_toDeckContent:
  "toDeckContent ex_env ex_cfg ex_null_state =
     Inr (ex_null_content ex_null_plugin ex_null_plugin,
          replicate 3 (Log_Errorf ''failed to fill-in defaults for plugin: %s'' (ArgStr ''rate-limiting'')))"
  by (simp add: toDeckContent_def ex_null_state_def ex_null_content_def sortByString_def
      ex_plugin_step_null getIngressControllerTags_def ex_cfg_def FormatVersion_def
      fillRoute_def ex_route_def numeral_3_eq_3)

section \<open>The order of the rendered collections\<close>

lemma ex_acl_less: "''acl'' < ''key-auth''"
  by simp

lemma ex_plugin_step_key_auth:
  "plugin_step ex_env ex_plugin_key_auth =
     Inr (ex_plugin_key_auth,
          [Log_Errorf ''failed to fill-in defaults for plugin: %s'' (ArgStr ''key-auth'')])"
  by (simp add: plugin_step_def fillPlugin_def ex_env_def ex_plugin_key_auth_def)

lemma ex_plugin_step_acl:
  "plugin_step ex_env ex_plugin_acl =
     Inr (ex_plugin_acl,
          [Log_Errorf ''failed to fill-in defaults for plugin: %s'' (ArgStr ''acl'')])"
  by (simp add: plugin_step_def fillPlugin_def ex_env_def ex_plugin_acl_def ex_plugin_key_auth_def)

lemma ex_plugin_names:
  "Plugin_Name ex_plugin_key_auth = Some ''key-auth''"
  "Plugin_Name ex_plugin_acl = Some ''acl''"
  by (simp_all add: ex_plugin_acl_def ex_plugin_key_auth_def)

lemma ex_not_le: "\<not> ''key-auth'' \<le> ''acl''"
  using ex_acl_less by (simp only: not_le)

lemma ex_sort_plugins:
  "sortByString Plugin_Name [ex_plugin_key_auth, ex_plugin_acl] = Inr [ex_plugin_acl, ex_plugin_key_auth]"
  by (simp add: sortByString_def ex_plugin_names ex_not_le)

section \<open>What a forced pass depends on\<close>












section \<open>Theorems\<close>



text \<open>
  C2. With reverse sync disabled, whenever the document renders, serializes to
  \<open>doc\<close>, and the stored fingerprint is the SHA-256 digest of \<open>doc\<close> followed by the
  custom-entity bytes, \<^verbatim>\<open>OnUpdate\<close> returns success, leaves the stored fingerprint
  as it was and makes no call to the gateway.
\<close>

theorem OnUpdate_skips_unchanged:
  assumes "\<not> EnableReverseSync cfg"
    and "toDeckContent n cfg state = Inr (targetContent, logs)"
    and "json_Marshal n targetContent = Inr doc"
    and "runningConfigHash c =
           Some (digest_bytes (sha256_Sum256 n
             (doc @ (case customEntitiesOf n cfg of None \<Rightarrow> [] | Some ce \<Rightarrow> ce))))"
  shows "\<exists>c'. OnUpdate n d cfg state c = Inr (None, c')
           \<and> runningConfigHash c' = runningConfigHash c
           \<and> gateway_calls (trace c') = gateway_calls (trace c)"
proof -
  have sha: "generateSHA n targetContent (customEntitiesOf n cfg) =
               Inr (the (runningConfigHash c))"
    using assms(3,4) by (simp add: generateSHA_eq)
  have "gateway_calls logs = []"
    using assms(2) by (rule toDeckContent_logs)
  then show ?thesis
    using assms(1,4) sha by (simp add: OnUpdate_unfold[OF assms(2)])
qed

theorem OnUpdate_skips_unchanged_witness:
  "\<not> EnableReverseSync ex_cfg
   \<and> toDeckContent ex_env ex_cfg ex_state = Inr (ex_content, [])
   \<and> json_Marshal ex_env ex_content = Inr [1]
   \<and> (\<exists>c'. OnUpdate ex_env ex_deck ex_cfg ex_state
               \<lparr>runningConfigHash = Some (digest_bytes 1), trace = []\<rparr> = Inr (None, c')
            \<and> runningConfigHash c' = Some (digest_bytes 1)
            \<and> gateway_calls (trace c') = [])"
proof -
  have h1: "\<not> EnableReverseSync ex_cfg"
    by (simp add: ex_cfg_def)
  have h4: "runningConfigHash \<lparr>runningConfigHash = Some (digest_bytes 1), trace = []\<rparr> =
           Some (digest_bytes (sha256_Sum256 ex_env
             ([1] @ (case customEntitiesOf ex_env ex_cfg of None \<Rightarrow> [] | Some ce \<Rightarrow> ce))))"
    by (simp add: customEntitiesOf_def ex_cfg_def ex_sha)
  show ?thesis
    using OnUpdate_skips_unchanged[OF h1 ex_toDeckContent ex_marshal h4, of ex_deck]
      h1 ex_toDeckContent ex_marshal
    by simp
qed

text \<open>
  C3 at a concrete desired state: a service with one route, and the same plugin, with
  config \<open>{a: null, b: 1}\<close>, on the service, on its route, on a consumer and at the top
  level. After \<^verbatim>\<open>cleanUpNullsInPluginConfigs\<close> the plugin of the service, of the consumer
  and of the top level has config \<open>{b: 1}\<close>; the plugin of the route still has
  \<open>a: null\<close>. The loop over routes ranges over the top-level routes of the document,
  which \<^verbatim>\<open>toDeckContent\<close> leaves empty, not over the routes of the service.
\<close>

theorem route_plugin_nulls_survive:
  "toDeckContent ex_env ex_cfg ex_null_state =
     Inr (ex_null_content ex_null_plugin ex_null_plugin,
          replicate 3 (Log_Errorf ''failed to fill-in defaults for plugin: %s'' (ArgStr ''rate-limiting'')))
   \<and> cleanUpNullsInPluginConfigs ((ex_null_content ex_null_plugin ex_null_plugin)\<lparr>Content_Info := None\<rparr>) =
       (ex_null_content ex_null_plugin ex_clean_plugin)\<lparr>Content_Info := None\<rparr>
   \<and> Plugin_Config ex_null_plugin = Some ex_null_config
   \<and> ex_null_config ''a'' = Some JNull
   \<and> Plugin_Config ex_clean_plugin = Some ex_clean_config
   \<and> ex_clean_config ''a'' = None
   \<and> ex_clean_config ''b'' = Some (JNum 1)"
proof -
  have "cleanUpNullsInPluginConfigs ((ex_null_content ex_null_plugin ex_null_plugin)\<lparr>Content_Info := None\<rparr>) =
       (ex_null_content ex_null_plugin ex_clean_plugin)\<lparr>Content_Info := None\<rparr>"
    by (simp add: cleanUpNullsInPluginConfigs_def ex_null_content_def ex_cleanUpPlugin)
  then show ?thesis
    using ex_null_toDeckContent
    by (simp add: ex_null_plugin_def ex_clean_plugin_def ex_null_config_def ex_clean_config_def)
qed

text \<open>
  C4. When the document serializes to \<open>core\<close>, \<^verbatim>\<open>renderConfigWithCustomEntities\<close>
  returns \<open>core\<close> unchanged for an absent or empty custom-entity blob. For a
  non-empty blob that parses to \<open>cm\<close>, with \<open>core\<close> parsing to \<open>m\<close>, it returns
  the serialization of \<open>cm ++ m\<close>: the keys of \<open>m\<close> together with the keys of \<open>cm\<close>,
  every key of \<open>m\<close> with its value in \<open>m\<close>, every other key with its value in \<open>cm\<close>.
  A blob that does not parse is logged and contributes no key.
\<close>

theorem renderConfig_merges_absent_keys:
  assumes "json_Marshal n state = Inr core"
  shows "renderConfigWithCustomEntities n state None = (Inr core, [])
     \<and> renderConfigWithCustomEntities n state (Some []) = (Inr core, [])
     \<and> (\<forall>b m cm. b \<noteq> [] \<longrightarrow> json_Unmarshal n core = Inr m \<longrightarrow> json_Unmarshal n b = Inr cm \<longrightarrow>
           renderConfigWithCustomEntities n state (Some b) =
             (case json_Marshal_map n (cm ++ m) of
                Inl err \<Rightarrow> Inl (Wrap ''marshaling final config into JSON'' err)
              | Inr result \<Rightarrow> Inr result, [])
           \<and> dom (cm ++ m) = dom m \<union> dom cm
           \<and> (\<forall>k \<in> dom m. (cm ++ m) k = m k)
           \<and> (\<forall>k. k \<notin> dom m \<longrightarrow> (cm ++ m) k = cm k))
     \<and> (\<forall>b m e. b \<noteq> [] \<longrightarrow> json_Unmarshal n core = Inr m \<longrightarrow> json_Unmarshal n b = Inl e \<longrightarrow>
           renderConfigWithCustomEntities n state (Some b) =
             (case json_Marshal_map n m of
                Inl err \<Rightarrow> Inl (Wrap ''marshaling final config into JSON'' err)
              | Inr result \<Rightarrow> Inr result,
              [Log_Errorf ''failed to unmarshal custom entities from secret data: %v'' (ArgErr e)]))"
proof -
  have merge: "(\<lambda>k. case m k of None \<Rightarrow> cm k | Some v \<Rightarrow> Some v) = cm ++ m"
    for m cm :: Configuration
    by (auto simp: map_add_def fun_eq_iff split: option.splits)
  show ?thesis
    using assms
    by (auto simp: renderConfigWithCustomEntities_def merge map_add_dom_app_simps
             split: sum.splits)
qed

theorem renderConfig_merges_absent_keys_witness:
  "json_Marshal ex_env ex_content = Inr [1]
   \<and> json_Unmarshal ex_env [1] = Inr [''services'' \<mapsto> JArr []]
   \<and> json_Unmarshal ex_env [7] = Inr [''services'' \<mapsto> JArr [JNum 1], ''extra'' \<mapsto> JObj []]
   \<and> renderConfigWithCustomEntities ex_env ex_content None = (Inr [1], [])
   \<and> renderConfigWithCustomEntities ex_env ex_content (Some [7]) = (Inr [1, 1], [])"
proof -
  have u1: "json_Unmarshal ex_env [1] = Inr [''services'' \<mapsto> JArr []]"
    and u7: "json_Unmarshal ex_env [7] = Inr [''services'' \<mapsto> JArr [JNum 1], ''extra'' \<mapsto> JObj []]"
    by (simp_all add: ex_env_def)
  have mm: "json_Marshal_map ex_env
              ([''services'' \<mapsto> JArr [JNum 1], ''extra'' \<mapsto> JObj []] ++ [''services'' \<mapsto> JArr []]) =
            Inr [1, 1]"
    by (simp add: ex_env_def)
  show ?thesis
    using renderConfig_merges_absent_keys[OF ex_marshal] ex_marshal u1 u7 mm
    by simp
qed

text \<open>
  C5 at a concrete desired state: the plugins \<open>key-auth\<close> and \<open>acl\<close>, in this order, on
  a service and on a consumer. \<^verbatim>\<open>toDeckContent\<close> renders the plugins of the service sorted
  by name, \<open>acl\<close> first, and the plugins of the consumer in their input order,
  \<open>key-auth\<close> first: the plugins of a consumer are appended and never sorted.
\<close>

theorem consumer_plugins_keep_input_order:
  "toDeckContent ex_env ex_cfg ex_unsorted_state =
     Inr (ex_unsorted_content,
          [Log_Errorf ''failed to fill-in defaults for plugin: %s'' (ArgStr ''key-auth''),
           Log_Errorf ''failed to fill-in defaults for plugin: %s'' (ArgStr ''acl'')])
   \<and> map FConsumer_Plugins (Content_Consumers ex_unsorted_content) =
       [[ex_plugin_key_auth, ex_plugin_acl]]
   \<and> map FService_Plugins (Content_Services ex_unsorted_content) =
       [[ex_plugin_acl, ex_plugin_key_auth]]
   \<and> Plugin_Name ex_plugin_key_auth = Some ''key-auth''
   \<and> Plugin_Name ex_plugin_acl = Some ''acl''
   \<and> ''acl'' < ''key-auth''"
proof -
  have "toDeckContent ex_env ex_cfg ex_unsorted_state =
     Inr (ex_unsorted_content,
          [Log_Errorf ''failed to fill-in defaults for plugin: %s'' (ArgStr ''key-auth''),
           Log_Errorf ''failed to fill-in defaults for plugin: %s'' (ArgStr ''acl'')])"
    by (simp add: toDeckContent_def ex_unsorted_state_def ex_unsorted_content_def
        ex_plugin_step_key_auth ex_plugin_step_acl sortByString_def ex_plugin_names ex_not_le
        getIngressControllerTags_def ex_cfg_def FormatVersion_def)
  then show ?thesis
    using ex_acl_less
    by (simp add: ex_unsorted_content_def ex_plugin_names)
qed

text \<open>
  C6. With reverse sync enabled, for every stored fingerprint, \<^verbatim>\<open>OnUpdate\<close> runs
  the selected strategy and returns its error. In database mode the gateway state is
  read; in in-memory mode the configuration is posted as soon as it renders and the
  request can be built.
\<close>

theorem OnUpdate_reverse_sync_always_syncs:
  assumes "EnableReverseSync cfg"
    and "toDeckContent n cfg state = Inr (targetContent, logs)"
  shows "\<exists>r c'. OnUpdate n d cfg state c = Inr (r, c')
     \<and> (\<not> InMemory cfg \<longrightarrow>
          r = fst (onUpdateDBMode d cfg targetContent c)
          \<and> (\<exists>rest. gateway_calls (trace c') =
                 gateway_calls (trace c) @ Dump_Get (getIngressControllerTags cfg) # rest))
     \<and> (InMemory cfg \<longrightarrow>
          r = fst (onUpdateInMemoryMode n cfg targetContent (customEntitiesOf n cfg) c)
          \<and> (\<forall>config.
                fst (renderConfigWithCustomEntities n
                       (cleanUpNullsInPluginConfigs (targetContent\<lparr>Content_Info := None\<rparr>))
                       (customEntitiesOf n cfg)) = Inr config
                \<longrightarrow> http_NewRequest n (Kong_URL cfg @ ''/config'') = None
                \<longrightarrow> gateway_calls (trace c') =
                      gateway_calls (trace c) @ [Client_Do_POST (Kong_URL cfg @ ''/config'') config]))"
proof -
  define c1 where "c1 = c\<lparr>trace := trace c @ logs @ fetchLog n cfg\<rparr>"
  have lg: "gateway_calls logs = []"
    using assms(2) by (rule toDeckContent_logs)
  have c1: "gateway_calls (trace c1) = gateway_calls (trace c)"
    by (simp add: c1_def lg)
  show ?thesis
  proof (cases "InMemory cfg")
    case False
    obtain rest where rest: "gateway_calls (trace (snd (onUpdateDBMode d cfg targetContent c1))) =
        gateway_calls (trace c1) @ Dump_Get (getIngressControllerTags cfg) # rest"
      using onUpdateDBMode_calls by blast
    have "fst (onUpdateDBMode d cfg targetContent c1) = fst (onUpdateDBMode d cfg targetContent c)"
      by (rule onUpdateDBMode_indep)
    with False rest c1 show ?thesis
      using assms(1)
      by (auto simp: OnUpdate_unfold[OF assms(2)] c1_def[symmetric] Let_def split: option.splits)
  next
    case True
    have "fst (onUpdateInMemoryMode n cfg targetContent (customEntitiesOf n cfg) c1) =
          fst (onUpdateInMemoryMode n cfg targetContent (customEntitiesOf n cfg) c)"
      by (rule onUpdateInMemoryMode_indep)
    with True c1 show ?thesis
      using assms(1) onUpdateInMemoryMode_posts[of n targetContent "customEntitiesOf n cfg" _ cfg c1]
      by (auto simp: OnUpdate_unfold[OF assms(2)] c1_def[symmetric] Let_def split: option.splits)
  qed
qed

theorem OnUpdate_reverse_sync_always_syncs_witness:
  "EnableReverseSync ex_cfg_reverse
   \<and> toDeckContent ex_env ex_cfg_reverse ex_state = Inr (ex_content, [])
   \<and> (\<exists>r c' rest. OnUpdate ex_env ex_deck ex_cfg_reverse ex_state ex_controller_synced = Inr (r, c')
         \<and> gateway_calls (trace c') = Dump_Get [''managed-by-ingress-controller''] # rest)"
proof -
  have h1: "EnableReverseSync ex_cfg_reverse"
    by (simp add: ex_cfg_reverse_def)
  have db: "\<not> InMemory ex_cfg_reverse"
    by (simp add: ex_cfg_reverse_def ex_cfg_def)
  have tags: "getIngressControllerTags ex_cfg_reverse = [''managed-by-ingress-controller'']"
    by (simp add: ex_cfg_reverse_def getIngressControllerTags_def ex_cfg_def)
  have tr: "gateway_calls (trace ex_controller_synced) = []"
    by (simp add: ex_controller_synced_def)
  show ?thesis
    using OnUpdate_reverse_sync_always_syncs[OF h1 ex_toDeckContent_reverse,
        of ex_deck ex_controller_synced] h1 ex_toDeckContent_reverse db tags tr
    by auto
qed

text \<open>
  C7. \<^verbatim>\<open>fillRoute\<close> sets the redirect status code to 426 exactly when it is unset
  and the path handling to \<open>v0\<close> exactly when it is unset, and changes no other field
  of the route; \<^verbatim>\<open>fillUpstream\<close> sets the algorithm to \<open>round-robin\<close> exactly when
  it is unset and changes no other field. A value that is set is kept.
\<close>

theorem fill_defaults:
  "Route_HTTPSRedirectStatusCode (fillRoute r) =
     (case Route_HTTPSRedirectStatusCode r of None \<Rightarrow> Some 426 | Some c \<Rightarrow> Some c)
   \<and> Route_PathHandling (fillRoute r) =
     (case Route_PathHandling r of None \<Rightarrow> Some ''v0'' | Some h \<Rightarrow> Some h)
   \<and> fillRoute r = r\<lparr>Route_HTTPSRedirectStatusCode := Route_HTTPSRedirectStatusCode (fillRoute r),
                      Route_PathHandling := Route_PathHandling (fillRoute r)\<rparr>
   \<and> Upstream_Algorithm (fillUpstream u) =
     (case Upstream_Algorithm u of None \<Rightarrow> Some ''round-robin'' | Some a \<Rightarrow> Some a)
   \<and> fillUpstream u = u\<lparr>Upstream_Algorithm := Upstream_Algorithm (fillUpstream u)\<rparr>"
  by (simp add: fillRoute_def fillUpstream_def Let_def split: option.splits)

text \<open>
  C8, as the code has it. In in-memory mode with a secret reference configured, every
  error of \<^verbatim>\<open>fetchCustomEntities\<close> is logged and nothing more: \<^verbatim>\<open>OnUpdate\<close> returns
  the same result, stores the same fingerprint and makes the same calls to the gateway
  as it does with no secret reference configured. A reference that
  \<^verbatim>\<open>ParseNameNS\<close> rejects is one such error, as is a failed fetch of the secret.
\<close>

theorem fetch_error_is_logged_not_fatal:
  assumes "InMemory cfg"
    and "KongCustomEntitiesSecret cfg \<noteq> []"
    and "fetchCustomEntities n cfg = Inl err"
    and "cfg0 = cfg\<lparr>KongCustomEntitiesSecret := []\<rparr>"
  shows "(\<forall>e. ParseNameNS n (KongCustomEntitiesSecret cfg) = Inl e \<longrightarrow>
             err = Wrap ''parsing kong custom entities secret'' e)
     \<and> (\<forall>p. OnUpdate n d cfg state c = Inl p \<longrightarrow> OnUpdate n d cfg0 state c = Inl p)
     \<and> (\<forall>r c'. OnUpdate n d cfg state c = Inr (r, c') \<longrightarrow>
           Log_Errorf ''failed to fetch custom entities: %v'' (ArgErr err) \<in> set (trace c')
           \<and> (\<exists>c0. OnUpdate n d cfg0 state c = Inr (r, c0)
                 \<and> runningConfigHash c0 = runningConfigHash c'
                 \<and> gateway_calls (trace c0) = gateway_calls (trace c')))"
proof (intro conjI allI impI)
  fix e assume "ParseNameNS n (KongCustomEntitiesSecret cfg) = Inl e"
  then show "err = Wrap ''parsing kong custom entities secret'' e"
    using assms(3) by (simp add: fetchCustomEntities_def)
next
  have tags: "getIngressControllerTags cfg0 = getIngressControllerTags cfg"
    by (simp add: assms(4) getIngressControllerTags_def)
  have td0: "toDeckContent n cfg0 state = toDeckContent n cfg state"
    by (rule toDeckContent_cfg[OF tags])
  have ce: "customEntitiesOf n cfg = None"
    using assms(1-3) by (simp add: customEntitiesOf_def)
  have ce0: "customEntitiesOf n cfg0 = None"
    by (simp add: customEntitiesOf_def assms(4))
  have fl: "fetchLog n cfg = [Log_Errorf ''failed to fetch custom entities: %v'' (ArgErr err)]"
    using assms(1-3) by (simp add: fetchLog_def)
  have fl0: "fetchLog n cfg0 = []"
    by (simp add: fetchLog_def assms(4))
  have im0: "InMemory cfg0"
    using assms(1) by (simp add: assms(4))
  have rs0: "EnableReverseSync cfg0 = EnableReverseSync cfg"
    by (simp add: assms(4))
  have url: "Kong_URL cfg0 = Kong_URL cfg"
    by (simp add: assms(4))
  {
    fix p assume "OnUpdate n d cfg state c = Inl p"
    then show "OnUpdate n d cfg0 state c = Inl p"
      by (simp add: OnUpdate_Inl_iff td0)
  }
  {
    fix r c' assume run: "OnUpdate n d cfg state c = Inr (r, c')"
    obtain tc logs where td: "toDeckContent n cfg state = Inr (tc, logs)"
      using run OnUpdate_Inr_toDeckContent by blast
    have td0': "toDeckContent n cfg0 state = Inr (tc, logs)"
      using td td0 by simp
    have lg: "gateway_calls logs = []"
      using td by (rule toDeckContent_logs)
    have both: "Log_Errorf ''failed to fetch custom entities: %v'' (ArgErr err) \<in> set (trace c')
           \<and> (\<exists>c0. OnUpdate n d cfg0 state c = Inr (r, c0)
                 \<and> runningConfigHash c0 = runningConfigHash c'
                 \<and> gateway_calls (trace c0) = gateway_calls (trace c'))"
    proof (cases "EnableReverseSync cfg \<or>
         (\<exists>sha. generateSHA n tc None = Inr sha \<and> runningConfigHash c \<noteq> Some sha)")
      case True
      define S where "S = (if InMemory cfg then onUpdateInMemoryMode n cfg tc (customEntitiesOf n cfg) c
              else onUpdateDBMode d cfg tc c)"
      have S0: "S = (if InMemory cfg0 then onUpdateInMemoryMode n cfg0 tc (customEntitiesOf n cfg0) c
              else onUpdateDBMode d cfg0 tc c)"
        using onUpdateInMemoryMode_cfg[OF url, of n tc None c] assms(1) im0
        by (simp add: S_def ce ce0)
      have go: "EnableReverseSync cfg \<or>
         (\<exists>sha. generateSHA n tc (customEntitiesOf n cfg) = Inr sha \<and> runningConfigHash c \<noteq> Some sha)"
        using True by (simp add: ce)
      have go0: "EnableReverseSync cfg0 \<or>
         (\<exists>sha. generateSHA n tc (customEntitiesOf n cfg0) = Inr sha \<and> runningConfigHash c \<noteq> Some sha)"
        using True by (simp add: ce0 rs0)
      from OnUpdate_proceeds_full[OF td go S_def] run
      have A: "r = fst S" "gateway_calls (trace c') = gateway_calls (trace (snd S))"
        "set (fetchLog n cfg) \<subseteq> set (trace c')"
        "runningConfigHash c' =
         (if fst S \<noteq> None then runningConfigHash c
          else if EnableReverseSync cfg then None
          else Some (projr (generateSHA n tc None)))"
        by (auto simp: ce)
      from OnUpdate_proceeds_full[OF td0' go0 S0]
      obtain c0 where B: "OnUpdate n d cfg0 state c = Inr (fst S, c0)"
        "gateway_calls (trace c0) = gateway_calls (trace (snd S))"
        "runningConfigHash c0 =
         (if fst S \<noteq> None then runningConfigHash c
          else if EnableReverseSync cfg then None
          else Some (projr (generateSHA n tc None)))"
        by (auto simp: ce0 rs0)
      show ?thesis
        using A B by (auto simp: fl)
    next
      case False
      then have nrs: "\<not> EnableReverseSync cfg" "\<not> EnableReverseSync cfg0"
        by (simp_all add: rs0)
      show ?thesis
      proof (cases "generateSHA n tc None")
        case (Inl e)
        then show ?thesis
          using run nrs
          by (auto simp: OnUpdate_unfold[OF td] OnUpdate_unfold[OF td0'] ce ce0 fl fl0 lg)
      next
        case (Inr sha)
        with False have "runningConfigHash c = Some sha"
          by simp
        with Inr show ?thesis
          using run nrs
          by (auto simp: OnUpdate_unfold[OF td] OnUpdate_unfold[OF td0'] ce ce0 fl fl0 lg)
      qed
    qed
    then show "Log_Errorf ''failed to fetch custom entities: %v'' (ArgErr err) \<in> set (trace c')"
      and "\<exists>c0. OnUpdate n d cfg0 state c = Inr (r, c0)
                 \<and> runningConfigHash c0 = runningConfigHash c'
                 \<and> gateway_calls (trace c0) = gateway_calls (trace c')"
      by simp_all
  }
qed

theorem fetch_error_is_logged_not_fatal_witness:
  "InMemory ex_cfg_malformed
   \<and> KongCustomEntitiesSecret ex_cfg_malformed \<noteq> []
   \<and> fetchCustomEntities ex_env ex_cfg_malformed =
       Inl (Wrap ''parsing kong custom entities secret'' (Error ''invalid format (namespace/name)''))
   \<and> (\<exists>r c'. OnUpdate ex_env ex_deck ex_cfg_malformed ex_state ex_controller = Inr (r, c')
         \<and> Log_Errorf ''failed to fetch custom entities: %v''
              (ArgErr (Wrap ''parsing kong custom entities secret''
                         (Error ''invalid format (namespace/name)''))) \<in> set (trace c')
         \<and> (\<exists>c0. OnUpdate ex_env ex_deck (ex_cfg_malformed\<lparr>KongCustomEntitiesSecret := []\<rparr>)
                     ex_state ex_controller = Inr (r, c0)
               \<and> runningConfigHash c0 = runningConfigHash c'
               \<and> gateway_calls (trace c0) = gateway_calls (trace c')))"
proof -
  have h1: "InMemory ex_cfg_malformed"
    and h2: "KongCustomEntitiesSecret ex_cfg_malformed \<noteq> []"
    by (simp_all add: ex_cfg_malformed_def)
  have run: "\<exists>r c'. OnUpdate ex_env ex_deck ex_cfg_malformed ex_state ex_controller = Inr (r, c')"
    using OnUpdate_Inl_iff[of ex_env ex_deck ex_cfg_malformed ex_state ex_controller]
      ex_toDeckContent_malformed
    by (cases "OnUpdate ex_env ex_deck ex_cfg_malformed ex_state ex_controller") auto
  show ?thesis
    using fetch_error_is_logged_not_fatal[OF h1 h2 ex_fetch_malformed refl,
        of ex_deck ex_state ex_controller] h1 h2 ex_fetch_malformed run
    by blast
qed

text \<open>
  C8, as stated, fails: with the malformed reference \<open>malformed\<close> the invocation is
  not aborted. \<^verbatim>\<open>OnUpdate\<close> logs the parse error, posts the configuration, stores the
  fingerprint and returns success.
\<close>

theorem malformed_secret_reference_counterexample:
  "ParseNameNS ex_env (KongCustomEntitiesSecret ex_cfg_malformed) =
     Inl (Error ''invalid format (namespace/name)'')
   \<and> OnUpdate ex_env ex_deck ex_cfg_malformed ex_state ex_controller =
     Inr (None,
          \<lparr>runningConfigHash = Some (digest_bytes 1),
           trace = [Log_Errorf ''failed to fetch custom entities: %v''
                      (ArgErr (Wrap ''parsing kong custom entities secret''
                                 (Error ''invalid format (namespace/name)''))),
                    Client_Do_POST ''http://kong:8001/config'' [1],
                    Log_Info ''successfully synced configuration to kong'']\<rparr>)"
proof -
  have cfg: "InMemory ex_cfg_malformed" "KongCustomEntitiesSecret ex_cfg_malformed \<noteq> []"
    "\<not> EnableReverseSync ex_cfg_malformed"
    by (simp_all add: ex_cfg_malformed_def ex_cfg_def)
  have parse: "ParseNameNS ex_env (KongCustomEntitiesSecret ex_cfg_malformed) =
     Inl (Error ''invalid format (namespace/name)'')"
    by (simp add: ex_env_def ex_cfg_malformed_def)
  have ce: "customEntitiesOf ex_env ex_cfg_malformed = None"
    by (simp add: customEntitiesOf_def ex_fetch_malformed)
  have fl: "fetchLog ex_env ex_cfg_malformed =
      [Log_Errorf ''failed to fetch custom entities: %v''
         (ArgErr (Wrap ''parsing kong custom entities secret''
                    (Error ''invalid format (namespace/name)'')))]"
    by (simp add: fetchLog_def ex_fetch_malformed cfg)
  have sha: "generateSHA ex_env ex_content None = Inr (digest_bytes 1)"
    by (simp add: generateSHA_def ex_marshal ex_sha)
  have "OnUpdate ex_env ex_deck ex_cfg_malformed ex_state ex_controller =
     Inr (None,
          \<lparr>runningConfigHash = Some (digest_bytes 1),
           trace = [Log_Errorf ''failed to fetch custom entities: %v''
                      (ArgErr (Wrap ''parsing kong custom entities secret''
                                 (Error ''invalid format (namespace/name)''))),
                    Client_Do_POST ''http://kong:8001/config'' [1],
                    Log_Info ''successfully synced configuration to kong'']\<rparr>)"
    by (simp add: OnUpdate_unfold[OF ex_toDeckContent_malformed] ce fl sha cfg
        ex_onUpdateInMemoryMode ex_controller_def)
  with parse show ?thesis
    by simp
qed






end
